theory Spec2Isabelle
  imports Complex_Main
begin

section \<open>Run-time values\<close>

text \<open>
  The front end receives the agent's state as parsed JSON and inspects it with run-time
  tests (\<^verbatim>\<open>===\<close>, truthiness, \<^verbatim>\<open>??\<close>, \<^verbatim>\<open>typeof\<close>), so the
  state is modelled as a JavaScript value and not by the types the casts assert.
  A string is a list of code units; a \<open>char\<close> stands for a code unit below 256.
  A JSON number is a finite double, hence a rational.  An object is an association
  list read with \<open>map_of\<close>.
\<close>

datatype jsval =
    JUndefined
  | JNull
  | JBool bool
  | JNum rat
  | JStr string
  | JArr "jsval list"
  | JObj "(string \<times> jsval) list"

text \<open>Truthiness (\<^verbatim>\<open>!x\<close>, \<^verbatim>\<open>x && y\<close>, \<^verbatim>\<open>x || y\<close>).\<close>

fun truthy :: "jsval \<Rightarrow> bool" where
  "truthy JUndefined = False"
| "truthy JNull = False"
| "truthy (JBool b) = b"
| "truthy (JNum n) = (n \<noteq> 0)"
| "truthy (JStr s) = (s \<noteq> [])"
| "truthy (JArr xs) = True"
| "truthy (JObj kvs) = True"

text \<open>\<^verbatim>\<open>x == null\<close>: the two values on which a property read throws and on which
  \<^verbatim>\<open>??\<close> takes its right operand.\<close>

fun nullish :: "jsval \<Rightarrow> bool" where
  "nullish JUndefined = True"
| "nullish JNull = True"
| "nullish v = False"

text \<open>
  \<^verbatim>\<open>v[k]\<close> on a value that is not nullish, for the property names the front end
  reads: \<^verbatim>\<open>action\<close>, \<^verbatim>\<open>enriched_response\<close>, \<^verbatim>\<open>messages\<close>,
  \<^verbatim>\<open>answer_text\<close>, \<^verbatim>\<open>type\<close>, \<^verbatim>\<open>role\<close>, \<^verbatim>\<open>content\<close>.  None of them
  is an index, \<^verbatim>\<open>length\<close> or a property of a built-in prototype, so only an object
  can hold one; every other value yields \<^verbatim>\<open>undefined\<close>.
\<close>

fun field :: "jsval \<Rightarrow> string \<Rightarrow> jsval" where
  "field (JObj kvs) k = (case map_of kvs k of None \<Rightarrow> JUndefined | Some v \<Rightarrow> v)"
| "field v k = JUndefined"

text \<open>
  \<^verbatim>\<open>String.prototype.trim\<close> removes white space and line terminators from both
  ends.  Below 256 these are TAB, LF, VT, FF, CR, SP and NBSP.
\<close>

definition is_js_whitespace :: "char \<Rightarrow> bool" where
  "is_js_whitespace c =
     (c = CHR 0x09 \<or> c = CHR 0x0A \<or> c = CHR 0x0B \<or> c = CHR 0x0C \<or> c = CHR 0x0D
      \<or> c = CHR 0x20 \<or> c = CHR 0xA0)"

definition js_trim :: "string \<Rightarrow> string" where
  "js_trim s = rev (dropWhile is_js_whitespace (rev (dropWhile is_js_whitespace s)))"

text \<open>
  What a JavaScript \<^verbatim>\<open>throw\<close> carries, as far as \<^verbatim>\<open>handleSend\<close> can tell:
  an instance of \<^verbatim>\<open>Error\<close> with its message, or any other value.
\<close>

datatype thrown = ThrownError string | ThrownOther

text \<open>
  Reading a property of \<^verbatim>\<open>null\<close> or \<^verbatim>\<open>undefined\<close> throws a
  \<^verbatim>\<open>TypeError\<close>; the message is the engine's (here V8's wording).
\<close>

definition type_error :: "jsval \<Rightarrow> string \<Rightarrow> thrown" where
  "type_error v k =
     ThrownError (''Cannot read properties of ''
       @ (if v = JNull then ''null'' else ''undefined'')
       @ '' (reading '' @ [CHR 0x27] @ k @ [CHR 0x27] @ '')'')"

text \<open>
  The result of a call: it returns, it throws, or the input lies outside what is
  modelled (see \<open>array_like\<close> below).
\<close>

datatype 'a outcome = Returns 'a | Throws thrown | Unmodelled

section \<open>types.ts\<close>

text \<open>
  \<^verbatim>\<open>types.ts\<close> is present in two revisions.  The later one, which
  \<^verbatim>\<open>MessageBubble\<close> reads (\<^verbatim>\<open>eval_passed\<close>, \<^verbatim>\<open>eval_score\<close>,
  \<^verbatim>\<open>eval_failure_category\<close>), is the one modelled; the earlier one lacks the three
  \<^verbatim>\<open>eval_\<close> fields.  \<^verbatim>\<open>number | null\<close> is an option of a number.
\<close>

record APICallLog =
  url :: string
  retrieved_at_utc :: string
  result_type :: string
  total_available :: "rat option"
  returned :: "rat option"
  count :: "rat option"

datatype failure_category = misaligned_intent | ungrounded_output

record AgentEnrichedResponse =
  request_id :: string
  title :: string
  parsed_intent :: string
  assumptions :: "string list"
  api_calls :: "APICallLog list"
  answer_text :: string
  eval_score :: rat
  eval_passed :: bool
  eval_failure_category :: "failure_category option"

datatype role = human | assistant

text \<open>
  A message of the chat as the front end keeps it.  \<^verbatim>\<open>content\<close> and
  \<^verbatim>\<open>enriched\<close> hold what \<^verbatim>\<open>sendMessage\<close> returned, unchecked, so they are
  run-time values; an absent \<^verbatim>\<open>enriched\<close> reads as \<^verbatim>\<open>undefined\<close>.  The
  time stamp is a number of milliseconds.
\<close>

record Message =
  id' :: string
  role :: role
  content :: jsval
  timestamp :: nat
  enriched :: jsval

section \<open>api.ts\<close>

definition GRAPH_ID :: string where
  "GRAPH_ID = ''earthquake_agent''"

text \<open>
  One event of the run stream (\<^verbatim>\<open>event.event\<close>, \<^verbatim>\<open>event.data\<close>), and the
  stream as the \<^verbatim>\<open>for await\<close> loop sees it: the events it yields, and then
  either its end or a rejection.
\<close>

record stream_event =
  event :: string
  data :: jsval

record run_stream =
  events :: "stream_event list"
  failure :: "thrown option"

text \<open>
  \<^verbatim>\<open>client.runs.stream(threadId, GRAPH_ID, {input: {messages: [{role: 'human',
  content: userMessage}]}, streamMode: 'values'})\<close>: the server's answer is the
  environment's, so the client is a parameter, a function of the thread, the graph and
  the user's text.
\<close>

type_synonym client = "string \<Rightarrow> string \<Rightarrow> string \<Rightarrow> run_stream"

record SendMessageResult =
  content :: jsval
  enriched :: jsval

definition NO_RESPONSE :: string where
  "NO_RESPONSE = ''The agent returned no response.''"

text \<open>
  The loop over the stream: \<^verbatim>\<open>finalState\<close> starts as \<^verbatim>\<open>null\<close> and every
  event named \<^verbatim>\<open>values\<close> overwrites it with its data.
\<close>

fun collect_final :: "jsval \<Rightarrow> stream_event list \<Rightarrow> jsval" where
  "collect_final finalState [] = finalState"
| "collect_final finalState (ev # evs) =
     collect_final (if event ev = ''values'' then data ev else finalState) evs"

text \<open>
  The value cast to an array, as the loop \<^verbatim>\<open>for (let i = messages.length - 1;
  i >= 0; i--)\<close> reads it.  An array gives its elements.  A string has a length and
  one-character strings as elements.  A boolean, a number, or an object with no
  \<^verbatim>\<open>length\<close> has \<^verbatim>\<open>length\<close> \<^verbatim>\<open>undefined\<close>, so \<^verbatim>\<open>i\<close> is
  \<^verbatim>\<open>NaN\<close> and the body never runs.  An object with a \<^verbatim>\<open>length\<close> of its
  own would need the number conversions of the language and is left unmodelled.
  The argument is never nullish (\<^verbatim>\<open>?? []\<close> has replaced such a value).
\<close>

fun array_like :: "jsval \<Rightarrow> jsval list option" where
  "array_like (JArr xs) = Some xs"
| "array_like (JStr s) = Some (map (\<lambda>c. JStr [c]) s)"
| "array_like (JObj kvs) = (if map_of kvs ''length'' = None then Some [] else None)"
| "array_like v = Some []"

text \<open>
  The test of the loop body on one message.  \<^verbatim>\<open>msg.type\<close> is read first and throws
  on a nullish \<^verbatim>\<open>msg\<close>; the caller checks that.
\<close>

definition is_assistant :: "jsval \<Rightarrow> bool" where
  "is_assistant msg = (field msg ''type'' = JStr ''ai'' \<or> field msg ''role'' = JStr ''assistant'')"

definition has_text :: "jsval \<Rightarrow> bool" where
  "has_text msg = (case field msg ''content'' of JStr s \<Rightarrow> js_trim s \<noteq> [] | _ \<Rightarrow> False)"

definition text_of :: "jsval \<Rightarrow> string" where
  "text_of msg = (case field msg ''content'' of JStr s \<Rightarrow> s | _ \<Rightarrow> [])"

text \<open>
  The backward loop, given the messages from the last to the first: \<^verbatim>\<open>content\<close>
  starts as the empty string and the first message that passes the test sets it and
  breaks.
\<close>

fun scan_back :: "jsval list \<Rightarrow> thrown + string" where
  "scan_back [] = Inr []"
| "scan_back (msg # earlier) =
     (if nullish msg then Inl (type_error msg ''type'')
      else if is_assistant msg \<and> has_text msg then Inr (text_of msg)
      else scan_back earlier)"

text \<open>\<^verbatim>\<open>sendMessage\<close> from the final state on (the part after the stream loop).\<close>

definition interpret_final :: "jsval \<Rightarrow> SendMessageResult outcome" where
  "interpret_final finalState =
     (if \<not> truthy finalState then
        Returns \<lparr>content = JStr NO_RESPONSE, enriched = JNull\<rparr>
      else
        let action = field finalState ''action'';
            enrichedRaw = field finalState ''enriched_response''
        in
          if action = JStr ''build_execute_query'' \<and> truthy enrichedRaw then
            Returns \<lparr>content = field enrichedRaw ''answer_text'', enriched = enrichedRaw\<rparr>
          else
            let m = field finalState ''messages'';
                messages = (if nullish m then JArr [] else m)
            in
              case array_like messages of
                None \<Rightarrow> Unmodelled
              | Some msgs \<Rightarrow>
                  (case scan_back (rev msgs) of
                     Inl e \<Rightarrow> Throws e
                   | Inr c \<Rightarrow>
                       Returns \<lparr>content = JStr (if js_trim c \<noteq> [] then js_trim c else NO_RESPONSE),
                                enriched = JNull\<rparr>))"

definition sendMessage :: "client \<Rightarrow> string \<Rightarrow> string \<Rightarrow> SendMessageResult outcome" where
  "sendMessage cl threadId userMessage =
     (let stream = cl threadId GRAPH_ID userMessage in
        case failure stream of
          Some e \<Rightarrow> Throws e
        | None \<Rightarrow> interpret_final (collect_final JNull (events stream)))"

section \<open>App.tsx\<close>

record app_state =
  threadId :: "string option"
  messages :: "Message list"
  inputValue :: string
  isLoading :: bool
  error :: "string option"

text \<open>
  \<^verbatim>\<open>handleSend\<close> up to the call of \<^verbatim>\<open>sendMessage\<close>.  The guard returns at
  once (\<open>None\<close>: no state is set and nothing is sent).  Otherwise the user's message
  is appended, the input is cleared, the loading flag is raised and the error is
  cleared; the result carries the thread and the text handed to \<^verbatim>\<open>sendMessage\<close>.
  \<^verbatim>\<open>crypto.randomUUID()\<close> and \<^verbatim>\<open>new Date()\<close> are the environment's: \<open>uuid\<close>
  and \<open>now\<close>.  The handler reads the state of the render it belongs to, taken here to
  be the current state.
\<close>

definition handleSend_begin ::
  "string \<Rightarrow> nat \<Rightarrow> app_state \<Rightarrow> (app_state \<times> string \<times> string) option" where
  "handleSend_begin uuid now st =
     (if js_trim (inputValue st) = [] \<or> isLoading st
         \<or> threadId st = None \<or> threadId st = Some []
      then None
      else
        let userMessage =
              \<lparr>id' = uuid, role = human, Message.content = JStr (js_trim (inputValue st)),
               timestamp = now, Message.enriched = JUndefined\<rparr>
        in Some (st\<lparr>messages := messages st @ [userMessage], inputValue := [],
                      isLoading := True, error := None\<rparr>,
                 the (threadId st), js_trim (inputValue st)))"

text \<open>\<^verbatim>\<open>err instanceof Error ? err.message : 'An unexpected error occurred.'\<close>\<close>

fun error_text :: "thrown \<Rightarrow> string" where
  "error_text (ThrownError m) = m"
| "error_text ThrownOther = ''An unexpected error occurred.''"

text \<open>
  \<^verbatim>\<open>handleSend\<close> after the \<^verbatim>\<open>await\<close>: the \<^verbatim>\<open>try\<close> body on a result, the
  \<^verbatim>\<open>catch\<close> on a rejection, and \<^verbatim>\<open>finally\<close> in both.  The updates of
  \<^verbatim>\<open>messages\<close> are functional (\<^verbatim>\<open>prev => [...prev, m]\<close>), so they apply to the
  state at that moment.
\<close>

fun handleSend_settle ::
  "string \<Rightarrow> nat \<Rightarrow> thrown + SendMessageResult \<Rightarrow> app_state \<Rightarrow> app_state" where
  "handleSend_settle uuid now (Inr r) st =
     (let assistantMessage =
            \<lparr>id' = uuid, role = assistant, Message.content = content r, timestamp = now,
             Message.enriched = (if nullish (enriched r) then JUndefined else enriched r)\<rparr>
      in st\<lparr>messages := messages st @ [assistantMessage], isLoading := False\<rparr>)"
| "handleSend_settle uuid now (Inl err) st =
     st\<lparr>error := Some (error_text err), isLoading := False\<rparr>"

text \<open>
  One call of \<^verbatim>\<open>handleSend\<close> from the click to the end of \<^verbatim>\<open>finally\<close>; the
  first pair of \<open>uuid\<close> and \<open>now\<close> is for the user's message, the second for the
  assistant's.
\<close>

definition handleSend ::
  "client \<Rightarrow> string \<Rightarrow> nat \<Rightarrow> string \<Rightarrow> nat \<Rightarrow> app_state \<Rightarrow> app_state outcome" where
  "handleSend cl uuid1 now1 uuid2 now2 st =
     (case handleSend_begin uuid1 now1 st of
        None \<Rightarrow> Returns st
      | Some (st1, tid, userText) \<Rightarrow>
          (case sendMessage cl tid userText of
             Returns r \<Rightarrow> Returns (handleSend_settle uuid2 now2 (Inr r) st1)
           | Throws err \<Rightarrow> Returns (handleSend_settle uuid2 now2 (Inl err) st1)
           | Unmodelled \<Rightarrow> Unmodelled))"

section \<open>InputBar.tsx\<close>

record key_event =
  key :: string
  shiftKey :: bool

text \<open>
  \<^verbatim>\<open>handleKeyDown\<close>: whether \<^verbatim>\<open>preventDefault\<close> is called and whether
  \<^verbatim>\<open>onSend\<close> is called.
\<close>

definition handleKeyDown :: "bool \<Rightarrow> string \<Rightarrow> key_event \<Rightarrow> bool \<times> bool" where
  "handleKeyDown isLoading' value e =
     (if key e = ''Enter'' \<and> \<not> shiftKey e
      then (True, \<not> isLoading' \<and> js_trim value \<noteq> [])
      else (False, False))"

definition canSend :: "bool \<Rightarrow> string \<Rightarrow> bool" where
  "canSend isLoading' value = (\<not> isLoading' \<and> length (js_trim value) > 0)"

text \<open>
  The send button has \<^verbatim>\<open>onClick={onSend}\<close> and \<^verbatim>\<open>disabled={!canSend}\<close>: a
  click calls \<^verbatim>\<open>onSend\<close> only on an enabled button.
\<close>

definition send_button_fires :: "bool \<Rightarrow> string \<Rightarrow> bool" where
  "send_button_fires isLoading' value = canSend isLoading' value"

section \<open>Vocabulary of the specification\<close>

text \<open>
  The last event named \<^verbatim>\<open>values\<close> of a stream, if there is one: the final state
  snapshot of the specification.
\<close>

definition last_values :: "stream_event list \<Rightarrow> jsval option" where
  "last_values evs =
     (case filter (\<lambda>ev. event ev = ''values'') evs of
        [] \<Rightarrow> None
      | vs \<Rightarrow> Some (data (last vs)))"

text \<open>
  The run that answers \<^verbatim>\<open>sendMessage(threadId, userMessage)\<close> ends normally and
  \<open>fs\<close> is its final state snapshot.
\<close>

definition final_snapshot :: "client \<Rightarrow> string \<Rightarrow> string \<Rightarrow> jsval \<Rightarrow> bool" where
  "final_snapshot cl tid userMessage fs =
     (failure (cl tid GRAPH_ID userMessage) = None
      \<and> last_values (events (cl tid GRAPH_ID userMessage)) = Some fs)"

text \<open>
  The messages of a snapshot (none when the field \<^verbatim>\<open>messages\<close> is not an array),
  and the condition that the field follows the snapshot schema: it is absent,
  \<^verbatim>\<open>null\<close> or an array, and no entry of the array is \<^verbatim>\<open>null\<close> or
  \<^verbatim>\<open>undefined\<close>.
\<close>

definition snapshot_messages :: "jsval \<Rightarrow> jsval list" where
  "snapshot_messages fs = (case field fs ''messages'' of JArr ms \<Rightarrow> ms | _ \<Rightarrow> [])"

definition messages_conform :: "jsval \<Rightarrow> bool" where
  "messages_conform fs =
     (case field fs ''messages'' of
        JArr ms \<Rightarrow> list_all (\<lambda>m. \<not> nullish m) ms
      | JUndefined \<Rightarrow> True
      | JNull \<Rightarrow> True
      | _ \<Rightarrow> False)"

text \<open>
  The latest assistant-authored message, read literally: the last message tagged
  \<^verbatim>\<open>ai\<close> or \<^verbatim>\<open>assistant\<close>, whatever it holds.
\<close>

definition latest_assistant_message :: "jsval list \<Rightarrow> jsval option" where
  "latest_assistant_message msgs =
     (case filter is_assistant msgs of [] \<Rightarrow> None | qs \<Rightarrow> Some (last qs))"

text \<open>
  The trimmed text of the latest assistant-authored message among those whose content
  is a string that is not blank.
\<close>

definition latest_assistant_text :: "jsval list \<Rightarrow> string option" where
  "latest_assistant_text msgs =
     (case filter (\<lambda>m. is_assistant m \<and> has_text m) msgs of
        [] \<Rightarrow> None
      | qs \<Rightarrow> Some (js_trim (text_of (last qs))))"

section \<open>Sample runs\<close>

text \<open>A client whose server answers every call with the stream \<open>s\<close>.\<close>

definition replay :: "run_stream \<Rightarrow> client" where
  "replay s tid graphId userMessage = s"

text \<open>A stream that emits the given state snapshots and ends.\<close>

definition snapshots :: "jsval list \<Rightarrow> run_stream" where
  "snapshots ds = \<lparr>events = map (\<lambda>d. \<lparr>event = ''values'', data = d\<rparr>) ds, failure = None\<rparr>"

text \<open>Messages as the graph serialises them.\<close>

definition ai_message :: "string \<Rightarrow> jsval" where
  "ai_message s = JObj [(''type'', JStr ''ai''), (''content'', JStr s)]"

definition human_message :: "string \<Rightarrow> jsval" where
  "human_message s = JObj [(''type'', JStr ''human''), (''content'', JStr s)]"

text \<open>
  A data turn (scenario A of the specification): the snapshot after routing, the final
  snapshot with the enriched response, and the stream that carries them.
\<close>

definition count_bundle :: "(string \<times> jsval) list" where
  "count_bundle =
     [(''request_id'', JStr ''req-1''),
      (''title'', JStr ''M6+ earthquakes this month''),
      (''parsed_intent'', JStr ''Count of M6+ earthquakes worldwide this month''),
      (''assumptions'', JArr []),
      (''api_calls'', JArr []),
      (''answer_text'', JStr ''Three M6+ earthquakes occurred this month.''),
      (''eval_score'', JNum 90),
      (''eval_passed'', JBool True),
      (''eval_failure_category'', JNull)]"

definition routed_snapshot :: jsval where
  "routed_snapshot =
     JObj [(''messages'', JArr [human_message ''How many M6+ earthquakes this month?'']),
           (''action'', JStr ''build_execute_query'')]"

definition data_snapshot :: jsval where
  "data_snapshot =
     JObj [(''messages'', JArr [human_message ''How many M6+ earthquakes this month?'',
                               ai_message ''Three M6+ earthquakes occurred this month.'']),
           (''action'', JStr ''build_execute_query''),
           (''enriched_response'', JObj count_bundle)]"

definition data_stream :: run_stream where
  "data_stream =
     \<lparr>events = [\<lparr>event = ''metadata'', data = JObj [(''run_id'', JStr ''run-1'')]\<rparr>,
                \<lparr>event = ''values'', data = routed_snapshot\<rparr>,
                \<lparr>event = ''values'', data = data_snapshot\<rparr>],
      failure = None\<rparr>"

text \<open>The same three schema fields inside a state with further fields, in another order.\<close>

definition data_snapshot_wide :: jsval where
  "data_snapshot_wide =
     JObj [(''parsed_query'', JObj [(''min_magnitude'', JNum 6)]),
           (''enriched_response'', JObj count_bundle),
           (''action'', JStr ''build_execute_query''),
           (''api_results'', JArr [JNum 3]),
           (''messages'', JArr [human_message ''How many M6+ earthquakes this month?'',
                               ai_message ''Three M6+ earthquakes occurred this month.''])]"

text \<open>
  Turns answered without the data pipeline.  The state still holds the enriched response
  of the earlier data turn.  In the first the assistant's last message is the answer; in
  the second it is blank.
\<close>

definition glossary_snapshot :: jsval where
  "glossary_snapshot =
     JObj [(''messages'', JArr [human_message ''How many M6+ earthquakes this month?'',
                               ai_message ''Three M6+ earthquakes occurred this month.'',
                               human_message ''What does magnitude mean?'',
                               ai_message '' Magnitude measures the energy an earthquake releases. '']),
           (''action'', JStr ''show_glossary''),
           (''enriched_response'', JObj count_bundle)]"

definition blank_reply_snapshot :: jsval where
  "blank_reply_snapshot =
     JObj [(''messages'', JArr [human_message ''How many M6+ earthquakes this month?'',
                               ai_message ''Three M6+ earthquakes occurred this month.'',
                               human_message ''Thanks!'',
                               ai_message '' '']),
           (''action'', JStr ''answer_question''),
           (''enriched_response'', JObj count_bundle)]"

text \<open>
  Data turns that end with no enriched response: one with an answer as the assistant's
  last message, one whose last assistant message is a tool call with empty content.
\<close>

definition empty_result_snapshot :: jsval where
  "empty_result_snapshot =
     JObj [(''messages'', JArr [human_message ''Any earthquakes near Oslo today?'',
                               ai_message ''No events were found for that request.'']),
           (''action'', JStr ''build_execute_query'')]"

definition tool_call_snapshot :: jsval where
  "tool_call_snapshot =
     JObj [(''messages'', JArr [human_message ''How many M6+ earthquakes this month?'',
                               ai_message ''Three M6+ earthquakes occurred this month.'',
                               human_message ''And near Tokyo?'',
                               JObj [(''type'', JStr ''ai''), (''content'', JStr []),
                                     (''tool_calls'', JArr [JObj [(''name'', JStr ''search'')]])]]),
           (''action'', JStr ''build_execute_query''),
           (''enriched_response'', JNull)]"

text \<open>
  Messages of every kind: a \<^verbatim>\<open>null\<close> entry, assistant messages tagged by
  \<^verbatim>\<open>type\<close> and by \<^verbatim>\<open>role\<close>, blank content, content that is a list of
  blocks, and a human message last.  Then a state with no assistant text at all, and a
  stream with no snapshot.
\<close>

definition mixed_snapshot :: jsval where
  "mixed_snapshot =
     JObj [(''messages'', JArr [JNull,
                               ai_message ''An earlier answer.'',
                               JObj [(''role'', JStr ''assistant''), (''content'', JStr '' The answer. '')],
                               ai_message ''   '',
                               JObj [(''type'', JStr ''ai''),
                                     (''content'', JArr [JObj [(''type'', JStr ''text'')]])],
                               human_message ''A later question'']),
           (''action'', JStr ''answer_question'')]"

definition human_only_snapshot :: jsval where
  "human_only_snapshot =
     JObj [(''messages'', JArr [human_message ''Hello?'', ai_message []]),
           (''action'', JStr ''answer_question'')]"

definition silent_stream :: run_stream where
  "silent_stream =
     \<lparr>events = [\<lparr>event = ''metadata'', data = JObj [(''run_id'', JStr ''run-2'')]\<rparr>],
      failure = None\<rparr>"

text \<open>
  States whose message array holds a \<^verbatim>\<open>null\<close> entry that the backward loop reaches:
  after the assistant's answer, and alone.
\<close>

definition null_after_answer_snapshot :: jsval where
  "null_after_answer_snapshot =
     JObj [(''messages'', JArr [ai_message ''An answer.'', JNull]),
           (''action'', JStr ''answer_question'')]"

definition only_null_snapshot :: jsval where
  "only_null_snapshot =
     JObj [(''messages'', JArr [JNull]),
           (''action'', JStr ''answer_question'')]"

text \<open>A stream that rejects after its first snapshot, and two states of the application.\<close>

definition offline_stream :: run_stream where
  "offline_stream =
     \<lparr>events = [\<lparr>event = ''values'', data = routed_snapshot\<rparr>],
      failure = Some (ThrownError ''Failed to fetch'')\<rparr>"

definition earlier_turn :: "Message list" where
  "earlier_turn =
     [\<lparr>id' = ''m1'', role = human, Message.content = JStr ''What does magnitude mean?'',
       timestamp = 1000, Message.enriched = JUndefined\<rparr>,
      \<lparr>id' = ''m2'', role = assistant,
       Message.content = JStr ''Magnitude measures the energy an earthquake releases.'',
       timestamp = 2000, Message.enriched = JUndefined\<rparr>]"

definition ready_state :: app_state where
  "ready_state =
     \<lparr>threadId = Some ''thread-1'', messages = earlier_turn,
      inputValue = '' How many M6+ earthquakes this month? '', isLoading = False,
      error = Some ''Failed to fetch''\<rparr>"

definition loading_state :: app_state where
  "loading_state =
     \<lparr>threadId = Some ''thread-1'', messages = earlier_turn,
      inputValue = ''One more question'', isLoading = True, error = None\<rparr>"

section \<open>Auxiliary facts\<close>

lemma collect_final_last_values:
  "collect_final fs evs = (case last_values evs of None \<Rightarrow> fs | Some d \<Rightarrow> d)"
proof (induction evs arbitrary: fs)
  case Nil
  show ?case by (simp add: last_values_def)
next
  case (Cons ev evs)
  show ?case
    by (simp add: Cons.IH last_values_def split: list.splits)
qed

lemma sendMessage_by_last_values:
  "sendMessage cl tid userMessage =
     (case failure (cl tid GRAPH_ID userMessage) of
        Some e \<Rightarrow> Throws e
      | None \<Rightarrow>
          interpret_final
            (case last_values (events (cl tid GRAPH_ID userMessage)) of
               None \<Rightarrow> JNull | Some d \<Rightarrow> d))"
  by (simp add: sendMessage_def Let_def collect_final_last_values split: option.splits)

lemma sendMessage_final_snapshot:
  "final_snapshot cl tid userMessage fs \<Longrightarrow>
   sendMessage cl tid userMessage = interpret_final fs"
  by (simp add: sendMessage_by_last_values final_snapshot_def)

lemma scan_back_rev:
  "list_all (\<lambda>m. \<not> nullish m) msgs \<Longrightarrow>
   scan_back (rev msgs) =
     Inr (case filter (\<lambda>m. is_assistant m \<and> has_text m) msgs of
            [] \<Rightarrow> []
          | qs \<Rightarrow> text_of (last qs))"
proof (induction msgs rule: rev_induct)
  case Nil
  show ?case by simp
next
  case (snoc m msgs)
  then show ?case
    by (simp split: list.splits)
qed

lemma js_trim_Nil: "js_trim [] = []"
  by (simp add: js_trim_def)

lemma has_text_trim: "has_text m \<Longrightarrow> js_trim (text_of m) \<noteq> []"
  by (auto simp: has_text_def text_of_def split: jsval.splits)

lemma is_assistant_not_nullish: "is_assistant m \<Longrightarrow> \<not> nullish m"
  by (cases m) (simp_all add: is_assistant_def)

lemma scan_back_skip:
  "\<forall>x\<in>set ys. \<not> nullish x \<and> \<not> (is_assistant x \<and> has_text x) \<Longrightarrow>
   scan_back (ys @ rest) = scan_back rest"
  by (induction ys) auto

lemma interpret_final_else:
  assumes "truthy fs"
    and "\<not> (field fs ''action'' = JStr ''build_execute_query''
              \<and> truthy (field fs ''enriched_response''))"
  shows "interpret_final fs =
           (case array_like (if nullish (field fs ''messages'') then JArr []
                             else field fs ''messages'') of
              None \<Rightarrow> Unmodelled
            | Some msgs \<Rightarrow>
                (case scan_back (rev msgs) of
                   Inl e \<Rightarrow> Throws e
                 | Inr c \<Rightarrow>
                     Returns \<lparr>content = JStr (if js_trim c \<noteq> [] then js_trim c else NO_RESPONSE),
                              enriched = JNull\<rparr>))"
proof -
  from assms(2) have no: "(field fs ''action'' = JStr ''build_execute_query''
      \<and> truthy (field fs ''enriched_response'')) = False"
    by simp
  from assms(1) show ?thesis
    unfolding interpret_final_def Let_def no by simp
qed

lemma extraction_branch:
  assumes "\<not> (field fs ''action'' = JStr ''build_execute_query''
              \<and> truthy (field fs ''enriched_response''))"
    and "messages_conform fs"
  shows "interpret_final fs =
           Returns \<lparr>content = JStr (case latest_assistant_text (snapshot_messages fs) of
                                      None \<Rightarrow> NO_RESPONSE | Some t \<Rightarrow> t),
                    enriched = JNull\<rparr>"
proof (cases "truthy fs")
  case False
  then have "field fs ''messages'' = JUndefined"
    by (cases fs) simp_all
  with False show ?thesis
    by (simp add: interpret_final_def snapshot_messages_def latest_assistant_text_def)
next
  case True
  note branch = interpret_final_else [OF True assms(1)]
  show ?thesis
  proof (cases "field fs ''messages''")
    case (JArr ms)
    with assms(2) have ok: "list_all (\<lambda>m. \<not> nullish m) ms"
      by (simp add: messages_conform_def)
    show ?thesis
    proof (cases "filter (\<lambda>m. is_assistant m \<and> has_text m) ms")
      case Nil
      with JArr ok show ?thesis
        by (simp add: branch snapshot_messages_def latest_assistant_text_def
            scan_back_rev js_trim_Nil del: filter_False)
    next
      case (Cons q qs)
      then have "last (q # qs) \<in> set (filter (\<lambda>m. is_assistant m \<and> has_text m) ms)"
        by (metis last_in_set list.distinct(1))
      then have "has_text (last (q # qs))" by simp
      then have "js_trim (text_of (last (q # qs))) \<noteq> []" by (rule has_text_trim)
      with JArr ok Cons show ?thesis
        by (simp add: branch snapshot_messages_def latest_assistant_text_def scan_back_rev)
    qed
  qed (use assms(2) in \<open>simp_all add: branch snapshot_messages_def
        latest_assistant_text_def messages_conform_def js_trim_Nil\<close>)
qed

lemmas sample_defs =
  replay_def snapshots_def ai_message_def human_message_def count_bundle_def
  routed_snapshot_def data_snapshot_def data_stream_def data_snapshot_wide_def

lemmas run_defs =
  final_snapshot_def last_values_def GRAPH_ID_def NO_RESPONSE_def
  is_assistant_def has_text_def text_of_def js_trim_def is_js_whitespace_def
  snapshot_messages_def messages_conform_def

section \<open>The claims about \<^verbatim>\<open>sendMessage\<close>\<close>

text \<open>
  Claim C1, as amended.  When the action of the final snapshot is not
  \<^verbatim>\<open>build_execute_query\<close> and its messages follow the schema,
  \<^verbatim>\<open>sendMessage\<close> returns \<^verbatim>\<open>enriched = null\<close>, and its content is the
  trimmed text of the latest assistant-authored message whose content is a string that
  is not blank, or the fixed text \<^verbatim>\<open>The agent returned no response.\<close> when there
  is no such message.  Nothing is assumed of \<^verbatim>\<open>enriched_response\<close>: whatever
  value the snapshot holds there is ignored.
\<close>

theorem stale_enrichment_ignored:
  assumes "final_snapshot cl tid userMessage fs"
    and "field fs ''action'' \<noteq> JStr ''build_execute_query''"
    and "messages_conform fs"
  shows "sendMessage cl tid userMessage =
           Returns \<lparr>content = JStr (case latest_assistant_text (snapshot_messages fs) of
                                      None \<Rightarrow> NO_RESPONSE | Some t \<Rightarrow> t),
                    enriched = JNull\<rparr>"
  using assms by (simp add: sendMessage_final_snapshot extraction_branch)

text \<open>
  A glossary turn after a data turn: the enriched response of the data turn is still in
  the state and is not returned.
\<close>

theorem stale_enrichment_ignored_witness:
  "final_snapshot (replay (snapshots [glossary_snapshot])) ''thread-1'' ''What does magnitude mean?''
     glossary_snapshot
   \<and> field glossary_snapshot ''action'' \<noteq> JStr ''build_execute_query''
   \<and> messages_conform glossary_snapshot
   \<and> field glossary_snapshot ''enriched_response'' = JObj count_bundle
   \<and> sendMessage (replay (snapshots [glossary_snapshot])) ''thread-1'' ''What does magnitude mean?''
       = Returns \<lparr>content = JStr ''Magnitude measures the energy an earthquake releases.'',
                   enriched = JNull\<rparr>"
  using stale_enrichment_ignored [of "replay (snapshots [glossary_snapshot])" "''thread-1''"
      "''What does magnitude mean?''" glossary_snapshot]
  by (simp add: run_defs sample_defs glossary_snapshot_def latest_assistant_text_def)

text \<open>
  Claim C1 as it was stated takes the content from the latest assistant-authored
  message.  Here that message is blank, the test of the loop passes over it, and the
  content returned is the answer of the turn before.
\<close>

theorem latest_assistant_message_counterexample:
  "final_snapshot (replay (snapshots [blank_reply_snapshot])) ''thread-1'' ''Thanks!''
     blank_reply_snapshot
   \<and> field blank_reply_snapshot ''action'' \<noteq> JStr ''build_execute_query''
   \<and> latest_assistant_message (snapshot_messages blank_reply_snapshot) = Some (ai_message '' '')
   \<and> field (ai_message '' '') ''content'' = JStr '' ''
   \<and> JStr '' '' \<noteq> JStr ''Three M6+ earthquakes occurred this month.''
   \<and> sendMessage (replay (snapshots [blank_reply_snapshot])) ''thread-1'' ''Thanks!''
       = Returns \<lparr>content = JStr ''Three M6+ earthquakes occurred this month.'',
                   enriched = JNull\<rparr>"
  by (simp add: sendMessage_def interpret_final_def Let_def run_defs sample_defs blank_reply_snapshot_def latest_assistant_message_def)

text \<open>
  Claim C2.  The result of \<^verbatim>\<open>sendMessage\<close> is a function of the last event named
  \<^verbatim>\<open>values\<close> only: two runs that end the same way and whose last \<^verbatim>\<open>values\<close>
  events carry the same data give the same result, whatever snapshots and other events
  came before.
\<close>

theorem last_snapshot_wins:
  assumes "failure (cl1 tid1 GRAPH_ID text1) = failure (cl2 tid2 GRAPH_ID text2)"
    and "last_values (events (cl1 tid1 GRAPH_ID text1))
         = last_values (events (cl2 tid2 GRAPH_ID text2))"
  shows "sendMessage cl1 tid1 text1 = sendMessage cl2 tid2 text2"
proof -
  let ?result = "\<lambda>end_of_stream last_data.
      case end_of_stream of
        Some e \<Rightarrow> Throws e
      | None \<Rightarrow> interpret_final (case last_data of None \<Rightarrow> JNull | Some d \<Rightarrow> d)"
  have "sendMessage cl1 tid1 text1 =
          ?result (failure (cl1 tid1 GRAPH_ID text1))
                  (last_values (events (cl1 tid1 GRAPH_ID text1)))"
    by (rule sendMessage_by_last_values)
  also have "\<dots> = ?result (failure (cl2 tid2 GRAPH_ID text2))
                          (last_values (events (cl2 tid2 GRAPH_ID text2)))"
    by (simp only: assms)
  also have "\<dots> = sendMessage cl2 tid2 text2"
    by (rule sendMessage_by_last_values [symmetric])
  finally show ?thesis .
qed

text \<open>
  The stream of the data turn, with its metadata event and its intermediate snapshot,
  against the stream that carries the final snapshot alone.
\<close>

theorem last_snapshot_wins_witness:
  "failure (replay data_stream ''thread-1'' GRAPH_ID ''How many?'')
     = failure (replay (snapshots [data_snapshot]) ''thread-1'' GRAPH_ID ''How many?'')
   \<and> last_values (events (replay data_stream ''thread-1'' GRAPH_ID ''How many?''))
     = last_values (events (replay (snapshots [data_snapshot]) ''thread-1'' GRAPH_ID ''How many?''))
   \<and> sendMessage (replay data_stream) ''thread-1'' ''How many?''
     = sendMessage (replay (snapshots [data_snapshot])) ''thread-1'' ''How many?''"
  using last_snapshot_wins [of "replay data_stream" "''thread-1''" "''How many?''"
      "replay (snapshots [data_snapshot])" "''thread-1''" "''How many?''"]
  by (simp add: replay_def snapshots_def data_stream_def last_values_def)

text \<open>
  Claim C3.  When the final snapshot has the action \<^verbatim>\<open>build_execute_query\<close> and its
  \<^verbatim>\<open>enriched_response\<close> is an enriched-response bundle, that is an object,
  \<^verbatim>\<open>sendMessage\<close> returns that bundle unchanged as \<^verbatim>\<open>enriched\<close> and the
  bundle's \<^verbatim>\<open>answer_text\<close> as \<^verbatim>\<open>content\<close>.
\<close>

theorem fresh_enrichment_returned:
  assumes "final_snapshot cl tid userMessage fs"
    and "field fs ''action'' = JStr ''build_execute_query''"
    and "field fs ''enriched_response'' = JObj bundle"
  shows "sendMessage cl tid userMessage =
           Returns \<lparr>content = field (JObj bundle) ''answer_text'', enriched = JObj bundle\<rparr>"
proof -
  from assms(2) have "truthy fs" by (cases fs) simp_all
  with assms show ?thesis
    by (simp add: sendMessage_final_snapshot interpret_final_def)
qed

theorem fresh_enrichment_returned_witness:
  "final_snapshot (replay data_stream) ''thread-1'' ''How many?'' data_snapshot
   \<and> field data_snapshot ''action'' = JStr ''build_execute_query''
   \<and> field data_snapshot ''enriched_response'' = JObj count_bundle
   \<and> sendMessage (replay data_stream) ''thread-1'' ''How many?''
       = Returns \<lparr>content = JStr ''Three M6+ earthquakes occurred this month.'',
                   enriched = JObj count_bundle\<rparr>"
  using fresh_enrichment_returned [of "replay data_stream" "''thread-1''" "''How many?''"
      data_snapshot count_bundle]
  by (simp add: final_snapshot_def last_values_def replay_def data_stream_def
      data_snapshot_def count_bundle_def)

text \<open>
  Claim C8.  The result of \<^verbatim>\<open>sendMessage\<close> depends only on the fields
  \<^verbatim>\<open>action\<close>, \<^verbatim>\<open>enriched_response\<close> and \<^verbatim>\<open>messages\<close> of the final
  snapshot: two runs whose final snapshots agree on these three fields give the same
  result, whatever else the two states hold.
\<close>

theorem three_fields_decide:
  assumes "final_snapshot cl1 tid1 text1 (JObj a)"
    and "final_snapshot cl2 tid2 text2 (JObj b)"
    and "field (JObj a) ''action'' = field (JObj b) ''action''"
    and "field (JObj a) ''enriched_response'' = field (JObj b) ''enriched_response''"
    and "field (JObj a) ''messages'' = field (JObj b) ''messages''"
  shows "sendMessage cl1 tid1 text1 = sendMessage cl2 tid2 text2"
proof -
  have "interpret_final (JObj a) = interpret_final (JObj b)"
    by (simp only: interpret_final_def assms(3-5) truthy.simps)
  with assms(1,2) show ?thesis
    by (simp add: sendMessage_final_snapshot)
qed

text \<open>
  The final snapshot of the data turn against a state that holds the same three fields
  among others, in another order, reached by another run.
\<close>

theorem three_fields_decide_witness:
  "final_snapshot (replay data_stream) ''thread-1'' ''How many?'' data_snapshot
   \<and> final_snapshot (replay (snapshots [data_snapshot_wide])) ''thread-2'' ''Count them''
         data_snapshot_wide
   \<and> field data_snapshot ''action'' = field data_snapshot_wide ''action''
   \<and> field data_snapshot ''enriched_response'' = field data_snapshot_wide ''enriched_response''
   \<and> field data_snapshot ''messages'' = field data_snapshot_wide ''messages''
   \<and> data_snapshot \<noteq> data_snapshot_wide
   \<and> sendMessage (replay data_stream) ''thread-1'' ''How many?''
       = sendMessage (replay (snapshots [data_snapshot_wide])) ''thread-2'' ''Count them''"
  using three_fields_decide [of "replay data_stream" "''thread-1''" "''How many?''" _
      "replay (snapshots [data_snapshot_wide])" "''thread-2''" "''Count them''" _]
  by (simp add: final_snapshot_def last_values_def replay_def snapshots_def data_stream_def
      data_snapshot_def data_snapshot_wide_def)

text \<open>
  Claim C9, as amended.  When the action of the final snapshot is
  \<^verbatim>\<open>build_execute_query\<close> but \<^verbatim>\<open>enriched_response\<close> is \<^verbatim>\<open>null\<close> or
  absent, and the messages follow the schema, \<^verbatim>\<open>sendMessage\<close> does not fail: it
  returns \<^verbatim>\<open>enriched = null\<close> with the content of the message-extraction branch,
  the trimmed text of the latest assistant message whose content is a string that is not
  blank, or the fixed text when there is no such message.
\<close>

theorem missing_enrichment_falls_back:
  assumes "final_snapshot cl tid userMessage fs"
    and "field fs ''action'' = JStr ''build_execute_query''"
    and "nullish (field fs ''enriched_response'')"
    and "messages_conform fs"
  shows "sendMessage cl tid userMessage =
           Returns \<lparr>content = JStr (case latest_assistant_text (snapshot_messages fs) of
                                      None \<Rightarrow> NO_RESPONSE | Some t \<Rightarrow> t),
                    enriched = JNull\<rparr>"
proof -
  from assms(3) have "\<not> truthy (field fs ''enriched_response'')"
    by (cases "field fs ''enriched_response''") simp_all
  with assms(1,4) show ?thesis
    by (simp add: sendMessage_final_snapshot extraction_branch)
qed

theorem missing_enrichment_falls_back_witness:
  "final_snapshot (replay (snapshots [empty_result_snapshot])) ''thread-1''
     ''Any earthquakes near Oslo today?'' empty_result_snapshot
   \<and> field empty_result_snapshot ''action'' = JStr ''build_execute_query''
   \<and> nullish (field empty_result_snapshot ''enriched_response'')
   \<and> messages_conform empty_result_snapshot
   \<and> sendMessage (replay (snapshots [empty_result_snapshot])) ''thread-1''
         ''Any earthquakes near Oslo today?''
       = Returns \<lparr>content = JStr ''No events were found for that request.'',
                   enriched = JNull\<rparr>"
  using missing_enrichment_falls_back [of "replay (snapshots [empty_result_snapshot])"
      "''thread-1''" "''Any earthquakes near Oslo today?''" empty_result_snapshot]
  by (simp add: run_defs sample_defs empty_result_snapshot_def latest_assistant_text_def)

text \<open>
  Claim C9 as it was stated returns the text of the latest assistant message.  Here that
  message is a tool call with empty content, and the content returned is the text of an
  earlier assistant message.
\<close>

theorem latest_assistant_text_counterexample:
  "final_snapshot (replay (snapshots [tool_call_snapshot])) ''thread-1'' ''And near Tokyo?''
     tool_call_snapshot
   \<and> field tool_call_snapshot ''action'' = JStr ''build_execute_query''
   \<and> field tool_call_snapshot ''enriched_response'' = JNull
   \<and> latest_assistant_message (snapshot_messages tool_call_snapshot)
       = Some (JObj [(''type'', JStr ''ai''), (''content'', JStr []),
                     (''tool_calls'', JArr [JObj [(''name'', JStr ''search'')]])])
   \<and> JStr [] \<noteq> JStr ''Three M6+ earthquakes occurred this month.''
   \<and> sendMessage (replay (snapshots [tool_call_snapshot])) ''thread-1'' ''And near Tokyo?''
       = Returns \<lparr>content = JStr ''Three M6+ earthquakes occurred this month.'',
                   enriched = JNull\<rparr>"
  by (simp add: sendMessage_def interpret_final_def Let_def run_defs sample_defs
      tool_call_snapshot_def latest_assistant_message_def)

text \<open>
  Claim C10, as amended.  On the message-extraction path, when no entry of the message
  array that the loop reaches is \<^verbatim>\<open>null\<close> or \<^verbatim>\<open>undefined\<close>,
  \<^verbatim>\<open>sendMessage\<close> selects the most recent message that is tagged \<^verbatim>\<open>ai\<close> by
  \<^verbatim>\<open>type\<close> or \<^verbatim>\<open>assistant\<close> by \<^verbatim>\<open>role\<close> and whose content is a string
  with non-empty trimmed text: every later message is passed over, being either not an
  assistant's (a human message) or an assistant's with no text (empty, blank, or not a
  string), and what precedes the selected message is not read.  When the stream yields
  no snapshot, or the messages follow the schema (absent, \<^verbatim>\<open>null\<close>, or an array
  with no \<^verbatim>\<open>null\<close> or \<^verbatim>\<open>undefined\<close> entry) and none of them qualifies, the
  result is the fixed text \<^verbatim>\<open>The agent returned no response.\<close> with
  \<^verbatim>\<open>enriched = null\<close>.
\<close>

theorem message_extraction:
  "(failure (cl0 tid0 GRAPH_ID text0) = None
      \<and> last_values (events (cl0 tid0 GRAPH_ID text0)) = None
    \<longrightarrow> sendMessage cl0 tid0 text0
          = Returns \<lparr>content = JStr NO_RESPONSE, enriched = JNull\<rparr>)
   \<and> (final_snapshot cl tid userMessage fs
      \<and> \<not> (field fs ''action'' = JStr ''build_execute_query''
             \<and> truthy (field fs ''enriched_response''))
      \<and> field fs ''messages'' = JArr (earlier @ m # later)
      \<and> (field m ''type'' = JStr ''ai'' \<or> field m ''role'' = JStr ''assistant'')
      \<and> field m ''content'' = JStr s \<and> js_trim s \<noteq> []
      \<and> (\<forall>x\<in>set later. \<not> nullish x \<and> \<not> (is_assistant x \<and> has_text x))
    \<longrightarrow> sendMessage cl tid userMessage
          = Returns \<lparr>content = JStr (js_trim s), enriched = JNull\<rparr>)
   \<and> (final_snapshot cl' tid' text' fs'
      \<and> \<not> (field fs' ''action'' = JStr ''build_execute_query''
             \<and> truthy (field fs' ''enriched_response''))
      \<and> messages_conform fs'
      \<and> (\<forall>x\<in>set (snapshot_messages fs'). \<not> (is_assistant x \<and> has_text x))
    \<longrightarrow> sendMessage cl' tid' text'
          = Returns \<lparr>content = JStr NO_RESPONSE, enriched = JNull\<rparr>)"
proof (intro conjI impI)
  assume "failure (cl0 tid0 GRAPH_ID text0) = None
      \<and> last_values (events (cl0 tid0 GRAPH_ID text0)) = None"
  then show "sendMessage cl0 tid0 text0
          = Returns \<lparr>content = JStr NO_RESPONSE, enriched = JNull\<rparr>"
    by (simp add: sendMessage_by_last_values interpret_final_def)
next
  assume h: "final_snapshot cl tid userMessage fs
      \<and> \<not> (field fs ''action'' = JStr ''build_execute_query''
             \<and> truthy (field fs ''enriched_response''))
      \<and> field fs ''messages'' = JArr (earlier @ m # later)
      \<and> (field m ''type'' = JStr ''ai'' \<or> field m ''role'' = JStr ''assistant'')
      \<and> field m ''content'' = JStr s \<and> js_trim s \<noteq> []
      \<and> (\<forall>x\<in>set later. \<not> nullish x \<and> \<not> (is_assistant x \<and> has_text x))"
  then have fin: "final_snapshot cl tid userMessage fs"
    and no: "\<not> (field fs ''action'' = JStr ''build_execute_query''
             \<and> truthy (field fs ''enriched_response''))"
    and msgs: "field fs ''messages'' = JArr (earlier @ m # later)"
    and tag: "field m ''type'' = JStr ''ai'' \<or> field m ''role'' = JStr ''assistant''"
    and str: "field m ''content'' = JStr s"
    and nonblank: "js_trim s \<noteq> []"
    and later: "\<forall>x\<in>set later. \<not> nullish x \<and> \<not> (is_assistant x \<and> has_text x)"
    by blast+
  from msgs have fs: "truthy fs" by (cases fs) simp_all
  from tag have m1: "is_assistant m" by (simp add: is_assistant_def)
  from str nonblank have m2: "has_text m" and m3: "text_of m = s"
    by (simp_all add: has_text_def text_of_def)
  from later have "\<forall>x\<in>set (rev later). \<not> nullish x \<and> \<not> (is_assistant x \<and> has_text x)"
    by simp
  then have "scan_back (rev later @ m # rev earlier) = scan_back (m # rev earlier)"
    by (rule scan_back_skip)
  with m1 m2 m3 have "scan_back (rev (earlier @ m # later)) = Inr s"
    by (simp add: is_assistant_not_nullish)
  with msgs nonblank have "interpret_final fs = Returns \<lparr>content = JStr (js_trim s), enriched = JNull\<rparr>"
    by (simp add: interpret_final_else [OF fs no])
  with fin show "sendMessage cl tid userMessage
          = Returns \<lparr>content = JStr (js_trim s), enriched = JNull\<rparr>"
    by (simp add: sendMessage_final_snapshot)
next
  assume h: "final_snapshot cl' tid' text' fs'
      \<and> \<not> (field fs' ''action'' = JStr ''build_execute_query''
             \<and> truthy (field fs' ''enriched_response''))
      \<and> messages_conform fs'
      \<and> (\<forall>x\<in>set (snapshot_messages fs'). \<not> (is_assistant x \<and> has_text x))"
  then have fin: "final_snapshot cl' tid' text' fs'"
    and no: "\<not> (field fs' ''action'' = JStr ''build_execute_query''
             \<and> truthy (field fs' ''enriched_response''))"
    and ok: "messages_conform fs'"
    and none: "\<forall>x\<in>set (snapshot_messages fs'). \<not> (is_assistant x \<and> has_text x)"
    by blast+
  from none have "filter (\<lambda>m. is_assistant m \<and> has_text m) (snapshot_messages fs') = []"
    by simp
  then have "latest_assistant_text (snapshot_messages fs') = None"
    by (simp add: latest_assistant_text_def del: filter_False)
  then have "interpret_final fs' = Returns \<lparr>content = JStr NO_RESPONSE, enriched = JNull\<rparr>"
    by (simp add: extraction_branch [OF no ok])
  with fin show "sendMessage cl' tid' text'
          = Returns \<lparr>content = JStr NO_RESPONSE, enriched = JNull\<rparr>"
    by (simp add: sendMessage_final_snapshot)
qed

text \<open>
  A stream with no snapshot; a state whose selected message is followed by a blank
  assistant message, an assistant message whose content is a list, and a human message,
  and preceded by a \<^verbatim>\<open>null\<close> entry; a state where nothing qualifies.
\<close>

theorem message_extraction_witness:
  "(failure (replay silent_stream ''thread-1'' GRAPH_ID ''Hello?'') = None
      \<and> last_values (events (replay silent_stream ''thread-1'' GRAPH_ID ''Hello?'')) = None
      \<and> sendMessage (replay silent_stream) ''thread-1'' ''Hello?''
          = Returns \<lparr>content = JStr ''The agent returned no response.'', enriched = JNull\<rparr>)
   \<and> (final_snapshot (replay (snapshots [mixed_snapshot])) ''thread-2'' ''A later question''
        mixed_snapshot
      \<and> field mixed_snapshot ''action'' \<noteq> JStr ''build_execute_query''
      \<and> field mixed_snapshot ''messages''
          = JArr ([JNull, ai_message ''An earlier answer.'']
                  @ JObj [(''role'', JStr ''assistant''), (''content'', JStr '' The answer. '')]
                  # [ai_message ''   '',
                     JObj [(''type'', JStr ''ai''),
                           (''content'', JArr [JObj [(''type'', JStr ''text'')]])],
                     human_message ''A later question''])
      \<and> sendMessage (replay (snapshots [mixed_snapshot])) ''thread-2'' ''A later question''
          = Returns \<lparr>content = JStr ''The answer.'', enriched = JNull\<rparr>)
   \<and> (final_snapshot (replay (snapshots [human_only_snapshot])) ''thread-3'' ''Hello?''
        human_only_snapshot
      \<and> messages_conform human_only_snapshot
      \<and> snapshot_messages human_only_snapshot = [human_message ''Hello?'', ai_message []]
      \<and> sendMessage (replay (snapshots [human_only_snapshot])) ''thread-3'' ''Hello?''
          = Returns \<lparr>content = JStr ''The agent returned no response.'', enriched = JNull\<rparr>)"
  using message_extraction [of "replay silent_stream" "''thread-1''" "''Hello?''"
      "replay (snapshots [mixed_snapshot])" "''thread-2''" "''A later question''" mixed_snapshot
      "[JNull, ai_message ''An earlier answer.'']"
      "JObj [(''role'', JStr ''assistant''), (''content'', JStr '' The answer. '')]"
      "[ai_message ''   '',
        JObj [(''type'', JStr ''ai''), (''content'', JArr [JObj [(''type'', JStr ''text'')]])],
        human_message ''A later question'']"
      "'' The answer. ''"
      "replay (snapshots [human_only_snapshot])" "''thread-3''" "''Hello?''" human_only_snapshot]
  by (simp add: run_defs sample_defs silent_stream_def mixed_snapshot_def
      human_only_snapshot_def)

text \<open>
  Claim C10 as it was stated has no condition on the entries of the array.  The loop
  reads \<^verbatim>\<open>msg.type\<close> of every entry it reaches, so a \<^verbatim>\<open>null\<close> entry after
  the assistant's answer makes \<^verbatim>\<open>sendMessage\<close> throw where the claim selects the
  answer, and an array that holds \<^verbatim>\<open>null\<close> alone makes it throw where the claim
  returns the fixed text.
\<close>

theorem null_entry_counterexample:
  "final_snapshot (replay (snapshots [null_after_answer_snapshot])) ''thread-1'' ''Hello?''
     null_after_answer_snapshot
   \<and> field null_after_answer_snapshot ''action'' \<noteq> JStr ''build_execute_query''
   \<and> field null_after_answer_snapshot ''messages'' = JArr [ai_message ''An answer.'', JNull]
   \<and> is_assistant (ai_message ''An answer.'') \<and> has_text (ai_message ''An answer.'')
   \<and> sendMessage (replay (snapshots [null_after_answer_snapshot])) ''thread-1'' ''Hello?''
       = Throws (type_error JNull ''type'')
   \<and> final_snapshot (replay (snapshots [only_null_snapshot])) ''thread-2'' ''Hello?''
       only_null_snapshot
   \<and> field only_null_snapshot ''action'' \<noteq> JStr ''build_execute_query''
   \<and> field only_null_snapshot ''messages'' = JArr [JNull]
   \<and> latest_assistant_text (snapshot_messages only_null_snapshot) = None
   \<and> sendMessage (replay (snapshots [only_null_snapshot])) ''thread-2'' ''Hello?''
       = Throws (type_error JNull ''type'')
   \<and> Throws (type_error JNull ''type'')
       \<noteq> Returns \<lparr>content = JStr ''An answer.'', enriched = JNull\<rparr>
   \<and> Throws (type_error JNull ''type'')
       \<noteq> Returns \<lparr>content = JStr NO_RESPONSE, enriched = JNull\<rparr>"
  by (simp add: sendMessage_def interpret_final_def Let_def run_defs sample_defs
      null_after_answer_snapshot_def only_null_snapshot_def latest_assistant_text_def)

section \<open>The claim about \<^verbatim>\<open>AgentEnrichedResponse\<close>\<close>

text \<open>
  Claim C4.  The caller-facing enriched response carries exactly the fields
  \<^verbatim>\<open>request_id\<close>, \<^verbatim>\<open>title\<close>, \<^verbatim>\<open>parsed_intent\<close> (strings),
  \<^verbatim>\<open>assumptions\<close> (a sequence of strings), \<^verbatim>\<open>api_calls\<close> (a sequence of
  call logs), \<^verbatim>\<open>answer_text\<close> (a string), \<^verbatim>\<open>eval_score\<close> (a number),
  \<^verbatim>\<open>eval_passed\<close> (a boolean) and \<^verbatim>\<open>eval_failure_category\<close>
  (\<^verbatim>\<open>misaligned_intent\<close>, \<^verbatim>\<open>ungrounded_output\<close> or \<^verbatim>\<open>null\<close>): two
  values of the type are equal exactly when these nine fields are, each field has the
  type stated, and the failure category has no fourth value.
\<close>

theorem enriched_response_fields:
  fixes r r' :: AgentEnrichedResponse
  shows "(r = r') =
           ((request_id r :: string) = request_id r'
            \<and> (title r :: string) = title r'
            \<and> (parsed_intent r :: string) = parsed_intent r'
            \<and> (assumptions r :: string list) = assumptions r'
            \<and> (api_calls r :: APICallLog list) = api_calls r'
            \<and> (answer_text r :: string) = answer_text r'
            \<and> (eval_score r :: rat) = eval_score r'
            \<and> (eval_passed r :: bool) = eval_passed r'
            \<and> (eval_failure_category r :: failure_category option) = eval_failure_category r')
         \<and> eval_failure_category r \<in> {Some misaligned_intent, Some ungrounded_output, None}"
proof -
  have "eval_failure_category r \<in> {Some misaligned_intent, Some ungrounded_output, None}"
  proof (cases "eval_failure_category r")
    case None
    then show ?thesis by simp
  next
    case (Some c)
    then show ?thesis by (cases c) simp_all
  qed
  then show ?thesis by auto
qed

section \<open>The claims about \<^verbatim>\<open>handleSend\<close> and \<^verbatim>\<open>InputBar\<close>\<close>

text \<open>
  Claim C5.  In a turn in which \<^verbatim>\<open>sendMessage\<close> throws, \<^verbatim>\<open>handleSend\<close> appends
  no assistant message and attaches no enriched response: the messages recorded before
  are unchanged and are followed by the user's message of this turn only, the loading
  flag is lowered, and the failure is shown as the error (the message of the
  \<^verbatim>\<open>Error\<close>, or a fixed text for any other thrown value).
\<close>

theorem failed_turn_keeps_history:
  assumes "js_trim (inputValue st) \<noteq> []"
    and "\<not> isLoading st"
    and "threadId st = Some tid"
    and "tid \<noteq> []"
    and "sendMessage cl tid (js_trim (inputValue st)) = Throws err"
  shows "handleSend cl uuid1 now1 uuid2 now2 st =
           Returns (st\<lparr>messages := messages st @
                          [\<lparr>id' = uuid1, role = human,
                            Message.content = JStr (js_trim (inputValue st)),
                            timestamp = now1, Message.enriched = JUndefined\<rparr>],
                        inputValue := [], isLoading := False,
                        error := Some (error_text err)\<rparr>)"
  using assms by (simp add: handleSend_def handleSend_begin_def)

text \<open>A turn whose stream rejects with \<^verbatim>\<open>Failed to fetch\<close>.\<close>

theorem failed_turn_keeps_history_witness:
  "js_trim (inputValue ready_state) \<noteq> []
   \<and> \<not> isLoading ready_state
   \<and> threadId ready_state = Some ''thread-1''
   \<and> sendMessage (replay offline_stream) ''thread-1'' (js_trim (inputValue ready_state))
       = Throws (ThrownError ''Failed to fetch'')
   \<and> handleSend (replay offline_stream) ''m3'' 3000 ''m4'' 4000 ready_state
       = Returns \<lparr>threadId = Some ''thread-1'',
                   messages = earlier_turn @
                     [\<lparr>id' = ''m3'', role = human,
                       Message.content = JStr ''How many M6+ earthquakes this month?'',
                       timestamp = 3000, Message.enriched = JUndefined\<rparr>],
                   inputValue = [], isLoading = False, error = Some ''Failed to fetch''\<rparr>"
  using failed_turn_keeps_history [of ready_state "''thread-1''" "replay offline_stream"
      "ThrownError ''Failed to fetch''" "''m3''" 3000 "''m4''" 4000]
  by (simp add: ready_state_def offline_stream_def replay_def sendMessage_def
      js_trim_def is_js_whitespace_def)

text \<open>
  Claim C6.  While a turn is in flight (\<^verbatim>\<open>isLoading\<close> is true) no new turn can be
  started: \<^verbatim>\<open>handleSend\<close> returns at once, changing nothing and sending nothing,
  \<^verbatim>\<open>handleKeyDown\<close> does not call \<^verbatim>\<open>onSend\<close> on any key, and the send button
  is disabled.  A turn that starts raises the flag, so that a second start is refused,
  and the flag is lowered only when the turn settles: turns are sequential.
\<close>

theorem one_turn_at_a_time:
  "(isLoading st \<longrightarrow>
      handleSend_begin uuid now st = None
      \<and> handleSend cl uuid now uuid' now' st = Returns st
      \<and> \<not> snd (handleKeyDown (isLoading st) (inputValue st) e)
      \<and> \<not> canSend (isLoading st) (inputValue st)
      \<and> \<not> send_button_fires (isLoading st) (inputValue st))
   \<and> (handleSend_begin uuid0 now0 st0 = Some (st1, tid, userText) \<longrightarrow>
      isLoading st1
      \<and> handleSend_begin uuid1 now1 st1 = None
      \<and> \<not> isLoading (handleSend_settle uuid2 now2 settled st1))"
proof (intro conjI impI)
  assume "handleSend_begin uuid0 now0 st0 = Some (st1, tid, userText)"
  then have "isLoading st1"
    by (auto simp: handleSend_begin_def split: if_splits)
  then show "isLoading st1" and "handleSend_begin uuid1 now1 st1 = None"
    by (simp_all add: handleSend_begin_def)
  show "\<not> isLoading (handleSend_settle uuid2 now2 settled st1)"
    by (cases settled) simp_all
qed (simp_all add: handleSend_begin_def handleSend_def handleKeyDown_def canSend_def
    send_button_fires_def)

theorem one_turn_at_a_time_witness:
  "(isLoading loading_state
      \<and> handleSend_begin ''m5'' 5000 loading_state = None
      \<and> handleSend (replay data_stream) ''m5'' 5000 ''m6'' 6000 loading_state
          = Returns loading_state
      \<and> \<not> snd (handleKeyDown (isLoading loading_state) (inputValue loading_state)
                 \<lparr>key = ''Enter'', shiftKey = False\<rparr>)
      \<and> \<not> canSend (isLoading loading_state) (inputValue loading_state)
      \<and> \<not> send_button_fires (isLoading loading_state) (inputValue loading_state))
   \<and> (handleSend_begin ''m3'' 3000 ready_state
        = Some (ready_state\<lparr>messages := earlier_turn @
                   [\<lparr>id' = ''m3'', role = human,
                     Message.content = JStr ''How many M6+ earthquakes this month?'',
                     timestamp = 3000, Message.enriched = JUndefined\<rparr>],
                 inputValue := [], isLoading := True, error := None\<rparr>,
                ''thread-1'', ''How many M6+ earthquakes this month?'')
      \<and> handleSend_begin ''m5'' 5000
          (ready_state\<lparr>messages := earlier_turn @
                   [\<lparr>id' = ''m3'', role = human,
                     Message.content = JStr ''How many M6+ earthquakes this month?'',
                     timestamp = 3000, Message.enriched = JUndefined\<rparr>],
                 inputValue := [], isLoading := True, error := None\<rparr>) = None)"
  using one_turn_at_a_time [of loading_state "''m5''" 5000 "replay data_stream" "''m6''" 6000
      "\<lparr>key = ''Enter'', shiftKey = False\<rparr>" "''m3''" 3000 ready_state
      "ready_state\<lparr>messages := earlier_turn @
                   [\<lparr>id' = ''m3'', role = human,
                     Message.content = JStr ''How many M6+ earthquakes this month?'',
                     timestamp = 3000, Message.enriched = JUndefined\<rparr>],
                 inputValue := [], isLoading := True, error := None\<rparr>"
      "''thread-1''" "''How many M6+ earthquakes this month?''" "''m5''" 5000]
  by (simp add: loading_state_def ready_state_def handleSend_begin_def
      js_trim_def is_js_whitespace_def)

text \<open>
  Claim C7.  A turn that completes appends exactly two entries at the end of the message
  list, the user's message and then the assistant's message, and leaves every message
  recorded before as it was.
\<close>

theorem completed_turn_appends_pair:
  assumes "js_trim (inputValue st) \<noteq> []"
    and "\<not> isLoading st"
    and "threadId st = Some tid"
    and "tid \<noteq> []"
    and "sendMessage cl tid (js_trim (inputValue st)) = Returns r"
  shows "handleSend cl uuid1 now1 uuid2 now2 st =
           Returns (st\<lparr>messages := messages st @
                          [\<lparr>id' = uuid1, role = human,
                            Message.content = JStr (js_trim (inputValue st)),
                            timestamp = now1, Message.enriched = JUndefined\<rparr>,
                           \<lparr>id' = uuid2, role = assistant,
                            Message.content = content r, timestamp = now2,
                            Message.enriched =
                              (if nullish (enriched r) then JUndefined else enriched r)\<rparr>],
                        inputValue := [], isLoading := False, error := None\<rparr>)"
  using assms by (simp add: handleSend_def handleSend_begin_def)

text \<open>The data turn, started after an earlier turn.\<close>

theorem completed_turn_appends_pair_witness:
  "js_trim (inputValue ready_state) \<noteq> []
   \<and> \<not> isLoading ready_state
   \<and> threadId ready_state = Some ''thread-1''
   \<and> sendMessage (replay data_stream) ''thread-1'' (js_trim (inputValue ready_state))
       = Returns \<lparr>content = JStr ''Three M6+ earthquakes occurred this month.'',
                   enriched = JObj count_bundle\<rparr>
   \<and> handleSend (replay data_stream) ''m3'' 3000 ''m4'' 4000 ready_state
       = Returns \<lparr>threadId = Some ''thread-1'',
                   messages = earlier_turn @
                     [\<lparr>id' = ''m3'', role = human,
                       Message.content = JStr ''How many M6+ earthquakes this month?'',
                       timestamp = 3000, Message.enriched = JUndefined\<rparr>,
                      \<lparr>id' = ''m4'', role = assistant,
                       Message.content = JStr ''Three M6+ earthquakes occurred this month.'',
                       timestamp = 4000, Message.enriched = JObj count_bundle\<rparr>],
                   inputValue = [], isLoading = False, error = None\<rparr>"
  using completed_turn_appends_pair [of ready_state "''thread-1''" "replay data_stream"
      "\<lparr>content = JStr ''Three M6+ earthquakes occurred this month.'',
        enriched = JObj count_bundle\<rparr>" "''m3''" 3000 "''m4''" 4000]
  by (simp add: ready_state_def sendMessage_def interpret_final_def Let_def run_defs sample_defs)

end
